theory Spec2Isabelle
  imports Main
begin

section \<open>Python values: errors and the decimal rendering of integers\<close>

text \<open>
  The exceptions the modelled code can raise. A raise is the left injection of a sum.
  \<open>KeyError\<close> carries the missing key; \<open>TypeError\<close> carries why a call could not bind
  its arguments to the function's parameters; \<open>DatabaseError\<close> stands for any exception
  of the database backend while a statement executes. The repository catches none of them.
\<close>

datatype call_error =
  Missing_positional string
| Multiple_values string
| Too_many_positional nat

datatype py_error = KeyError string | TypeError call_error | DatabaseError

text \<open>
  \<^verbatim>\<open>str(n)\<close> and the f-string field \<^verbatim>\<open>{n}\<close> of a Python integer: decimal digits, most
  significant first, with a leading minus sign for a negative number.
\<close>

definition digit_char :: "nat \<Rightarrow> char" where
  "digit_char d = ''0123456789'' ! d"

function str_nat :: "nat \<Rightarrow> string" where
  "str_nat n = (if n < 10 then [digit_char n] else str_nat (n div 10) @ [digit_char (n mod 10)])"
  by pat_completeness auto
termination
  by (relation "measure (\<lambda>n. n)") auto

definition str_int :: "int \<Rightarrow> string" where
  "str_int i = (if i < 0 then CHR ''-'' # str_nat (nat (- i)) else str_nat (nat i))"

section \<open>The data model the admin classes read\<close>

text \<open>
  \<^verbatim>\<open>store/models.py\<close> is not among the sources, so a row of the product table carries
  the columns \<^verbatim>\<open>store/admin.py\<close> names (\<^verbatim>\<open>id\<close>, \<^verbatim>\<open>title\<close>, \<^verbatim>\<open>inventory\<close>, the foreign key
  \<^verbatim>\<open>collection_id\<close>) and every other column in the record's extension: the theorems are
  stated for \<open>'a product_scheme\<close>, that is for any further columns.
\<close>

record product =
  product_id :: int
  title :: string
  inventory :: int
  collection_id :: int

text \<open>
  A queryset is a lazy query: the WHERE clause over the rows of the model's table, read
  against the table when the query executes. \<^verbatim>\<open>filter\<close> conjoins a condition;
  evaluating the queryset selects the matching rows in table order.
\<close>

type_synonym 'r queryset = "'r \<Rightarrow> bool"

definition QuerySet_all :: "'r queryset" where
  "QuerySet_all = (\<lambda>r. True)"

definition QuerySet_filter :: "('r \<Rightarrow> bool) \<Rightarrow> 'r queryset \<Rightarrow> 'r queryset" where
  "QuerySet_filter cond qs = (\<lambda>r. qs r \<and> cond r)"

definition QuerySet_rows :: "'r list \<Rightarrow> 'r queryset \<Rightarrow> 'r list" where
  "QuerySet_rows tbl qs = filter qs tbl"

section \<open>InventoryFilter and ProductAdmin.inventory_status\<close>

text \<open>
  \<^verbatim>\<open>
  def queryset(self, request, queryset):
      if self.value() == '<10':
          return queryset.filter(inventory__lt=10)
  \<close>
  \<^verbatim>\<open>self.value()\<close> is the value of the request's \<^verbatim>\<open>inventory\<close> parameter, \<^verbatim>\<open>None\<close> when the
  parameter is absent. The method falls off its end, returning \<^verbatim>\<open>None\<close>, for every other
  value.
\<close>

definition InventoryFilter_queryset ::
  "string option \<Rightarrow> 'a product_scheme queryset \<Rightarrow> 'a product_scheme queryset option" where
  "InventoryFilter_queryset val qs =
     (if val = Some ''<10'' then Some (QuerySet_filter (\<lambda>p. inventory p < 10) qs) else None)"

text \<open>
  The change list applies a filter's result as the framework does:
  \<^verbatim>\<open>new_qs = filter_spec.queryset(request, qs); if new_qs is not None: qs = new_qs\<close>.
\<close>

definition apply_filter_spec ::
  "('r queryset \<Rightarrow> 'r queryset option) \<Rightarrow> 'r queryset \<Rightarrow> 'r queryset" where
  "apply_filter_spec spec qs = (case spec qs of None \<Rightarrow> qs | Some new_qs \<Rightarrow> new_qs)"

text \<open>
  \<^verbatim>\<open>
  def inventory_status(self, product):
      if product.inventory < 10:
          return 'Low'
      return 'OK'
  \<close>
\<close>

definition inventory_status :: "'a product_scheme \<Rightarrow> string" where
  "inventory_status p = (if inventory p < 10 then ''Low'' else ''OK'')"

section \<open>ProductAdmin.clear_inventory\<close>

text \<open>
  The database as the action sees it: the product table and whether the backend executes
  the statement it is sent. \<^verbatim>\<open>QuerySet.update\<close> is one UPDATE statement: it writes the
  given columns of every row the WHERE clause matches, touches no other row and no other
  column (it calls no \<^verbatim>\<open>save()\<close>), and returns the number of rows matched. A failed
  statement raises and changes nothing.
\<close>

record 'a database =
  products :: "'a product_scheme list"
  connection_usable :: bool

definition QuerySet_update ::
  "'a product_scheme queryset \<Rightarrow> ('a product_scheme \<Rightarrow> 'a product_scheme) \<Rightarrow> 'a database
     \<Rightarrow> py_error + (nat \<times> 'a database)" where
  "QuerySet_update qs assign db =
     (if connection_usable db
      then Inr (length (filter qs (products db)),
                db\<lparr>products := map (\<lambda>r. if qs r then assign r else r) (products db)\<rparr>)
      else Inl DatabaseError)"

text \<open>
  The messages queued on the request: \<^verbatim>\<open>message_user(request, message, level)\<close> appends
  one. \<^verbatim>\<open>messages.ERROR\<close> is the framework's constant 40.
\<close>

record user_message =
  level :: nat
  message :: string

definition messages_ERROR :: nat where
  "messages_ERROR = 40"

definition message_user :: "user_message list \<Rightarrow> string \<Rightarrow> nat \<Rightarrow> user_message list" where
  "message_user request msg lvl = request @ [\<lparr>level = lvl, message = msg\<rparr>]"

text \<open>
  \<^verbatim>\<open>
  def clear_inventory(self, request, quaryset):
      updated_count = quaryset.update(inventory=0)
      self.message_user(
          request,
          f'{updated_count} products were successfully updated.',
          messages.ERROR
      )
  \<close>
  The state is the database and the request's message queue; an exception of
  \<^verbatim>\<open>update\<close> leaves the function before \<^verbatim>\<open>message_user\<close> is reached.
\<close>

definition clear_inventory ::
  "'a database \<Rightarrow> user_message list \<Rightarrow> 'a product_scheme queryset
     \<Rightarrow> py_error + ('a database \<times> user_message list)" where
  "clear_inventory db request quaryset =
     (case QuerySet_update quaryset (\<lambda>p. p\<lparr>inventory := 0\<rparr>) db of
        Inl e \<Rightarrow> Inl e
      | Inr (updated_count, db') \<Rightarrow>
          Inr (db', message_user request
                      (str_nat updated_count @ '' products were successfully updated.'')
                      messages_ERROR))"

section \<open>Annotated counts: CollectionAdmin.get_queryset and CustomerAdmin.get_queryset\<close>

text \<open>
  The rows of the other tables, with the columns the admin classes name; as for products,
  every other column lives in the record's extension. \<^verbatim>\<open>Product.collection\<close> is reached
  from a collection as \<^verbatim>\<open>products\<close>, \<^verbatim>\<open>Order.customer\<close> from a customer as \<^verbatim>\<open>order\<close>.
\<close>

record collection =
  collection_pk :: int
  collection_title :: string

record customer =
  customer_pk :: int
  membership :: string

record order =
  order_pk :: int
  customer_id :: int

text \<open>A row of an annotated queryset: the model instance and the annotation's value.\<close>

record 'r annotated =
  instance_of :: 'r
  annotation :: nat

text \<open>
  \<^verbatim>\<open>qs.annotate(n=Count('rel'))\<close> over a reverse foreign key is the statement
  \<^verbatim>\<open>SELECT l.*, COUNT(r.id) FROM l LEFT OUTER JOIN r ON (l.id = r.l_id) GROUP BY l.*\<close>:
  the join pairs each left row with every right row that refers to it, or with NULL when
  there is none; the rows are grouped by the left row, and COUNT counts the non-NULL right
  keys of each group.
\<close>

definition join_rows :: "('l \<Rightarrow> int) \<Rightarrow> ('r \<Rightarrow> int) \<Rightarrow> 'r list \<Rightarrow> 'l \<Rightarrow> ('l \<times> 'r option) list" where
  "join_rows pk fk rs l =
     (case filter (\<lambda>r. fk r = pk l) rs of
        [] \<Rightarrow> [(l, None)]
      | ms \<Rightarrow> map (\<lambda>r. (l, Some r)) ms)"

definition left_outer_join ::
  "('l \<Rightarrow> int) \<Rightarrow> ('r \<Rightarrow> int) \<Rightarrow> 'l list \<Rightarrow> 'r list \<Rightarrow> ('l \<times> 'r option) list" where
  "left_outer_join pk fk ls rs = concat (map (join_rows pk fk rs) ls)"

definition group_by_count :: "('l \<times> 'r option) list \<Rightarrow> 'l annotated list" where
  "group_by_count joined =
     map (\<lambda>l. \<lparr>instance_of = l,
               annotation = length (filter (\<lambda>(l', r). l' = l \<and> r \<noteq> None) joined)\<rparr>)
         (remdups (map fst joined))"

definition annotate_Count ::
  "('l \<Rightarrow> int) \<Rightarrow> ('r \<Rightarrow> int) \<Rightarrow> 'l list \<Rightarrow> 'r list \<Rightarrow> 'l annotated list" where
  "annotate_Count pk fk ls rs = group_by_count (left_outer_join pk fk ls rs)"

text \<open>
  \<^verbatim>\<open>
  def get_queryset(self, request):
      return super().get_queryset(request).annotate(products_count=Count('products'))
  \<close>
  and the same in \<^verbatim>\<open>CustomerAdmin\<close> with \<^verbatim>\<open>orders_count=Count('order')\<close>. The first
  argument is what \<^verbatim>\<open>super().get_queryset(request)\<close> selects: the rows of the model's
  table, in the admin's ordering.
\<close>

definition CollectionAdmin_get_queryset ::
  "'a collection_scheme list \<Rightarrow> 'b product_scheme list \<Rightarrow> 'a collection_scheme annotated list" where
  "CollectionAdmin_get_queryset collections prods =
     annotate_Count collection_pk collection_id collections prods"

definition CustomerAdmin_get_queryset ::
  "'a customer_scheme list \<Rightarrow> 'b order_scheme list \<Rightarrow> 'a customer_scheme annotated list" where
  "CustomerAdmin_get_queryset customers orders =
     annotate_Count customer_pk customer_id customers orders"

section \<open>Count columns as links: products_count and orders_count\<close>

text \<open>
  \<^verbatim>\<open>urllib.parse.quote_plus\<close> on a byte string: letters, digits and \<^verbatim>\<open>_.-~\<close> stand for
  themselves, a space becomes \<^verbatim>\<open>+\<close>, every other byte becomes \<^verbatim>\<open>%XX\<close> in upper-case
  hexadecimal. \<^verbatim>\<open>urlencode\<close> joins \<^verbatim>\<open>quote_plus(k) + '=' + quote_plus(v)\<close> with \<^verbatim>\<open>&\<close>.
\<close>

definition always_safe :: "char \<Rightarrow> bool" where
  "always_safe c \<longleftrightarrow>
     c \<in> set ''ABCDEFGHIJKLMNOPQRSTUVWXYZabcdefghijklmnopqrstuvwxyz0123456789_.-~''"

definition hex_digit :: "nat \<Rightarrow> char" where
  "hex_digit d = ''0123456789ABCDEF'' ! d"

definition quote_plus_char :: "char \<Rightarrow> string" where
  "quote_plus_char c =
     (if c = CHR '' '' then ''+''
      else if always_safe c then [c]
      else [CHR ''%'', hex_digit (of_char c div 16), hex_digit (of_char c mod 16)])"

definition quote_plus :: "string \<Rightarrow> string" where
  "quote_plus s = concat (map quote_plus_char s)"

fun urlencode :: "(string \<times> string) list \<Rightarrow> string" where
  "urlencode [] = []"
| "urlencode [(k, v)] = quote_plus k @ ''='' @ quote_plus v"
| "urlencode ((k, v) # kvs) = quote_plus k @ ''='' @ quote_plus v @ ''&'' @ urlencode kvs"

text \<open>
  \<^verbatim>\<open>format_html\<close> passes each argument through \<^verbatim>\<open>conditional_escape\<close>; a plain string
  (which \<^verbatim>\<open>reverse(...) + '?' + urlencode(...)\<close> is) and an integer are escaped as
  \<^verbatim>\<open>html.escape(str(x))\<close> does: the five characters \<^verbatim>\<open>& < > " '\<close> become entities.
\<close>

definition escape_char :: "char \<Rightarrow> string" where
  \<open>escape_char c =
     (if c = CHR ''&'' then ''&amp;''
      else if c = CHR ''<'' then ''&lt;''
      else if c = CHR ''>'' then ''&gt;''
      else if c = CHR 0x22 then ''&quot;''
      else if c = CHR 0x27 then ''&#x27;''
      else [c])\<close>

definition escape :: "string \<Rightarrow> string" where
  "escape s = concat (map escape_char s)"

text \<open>\<^verbatim>\<open>format_html('<a href="{}">{}</a>', url, count)\<close>.\<close>

definition format_html_link :: "string \<Rightarrow> string \<Rightarrow> string" where
  "format_html_link url txt =
     ''<a href='' @ [CHR 0x22] @ escape url @ [CHR 0x22] @ ''>'' @ escape txt @ ''</a>''"

text \<open>
  \<^verbatim>\<open>
  def products_count(self, collection):
      url = (reverse('admin:store_product_changelist') + '?'
             + urlencode({'collection_id': str(collection.id)}))
      return format_html('<a href="{}">{}</a>', url, collection.products_count)
  \<close>
  and the same in \<^verbatim>\<open>CustomerAdmin.orders_count\<close> with \<^verbatim>\<open>admin:store_order_changelist\<close>,
  \<^verbatim>\<open>customer_id\<close> and \<^verbatim>\<open>customer.orders_count\<close>. The URL configuration is not among the
  sources: what \<^verbatim>\<open>reverse\<close> returns for the change list is the first argument.
\<close>

definition CollectionAdmin_products_count ::
  "string \<Rightarrow> 'a collection_scheme annotated \<Rightarrow> string" where
  "CollectionAdmin_products_count product_changelist c =
     (let url = product_changelist @ ''?''
                @ urlencode [(''collection_id'', str_int (collection_pk (instance_of c)))]
      in format_html_link url (str_nat (annotation c)))"

definition CustomerAdmin_orders_count ::
  "string \<Rightarrow> 'a customer_scheme annotated \<Rightarrow> string" where
  "CustomerAdmin_orders_count order_changelist c =
     (let url = order_changelist @ ''?''
                @ urlencode [(''customer_id'', str_int (customer_pk (instance_of c)))]
      in format_html_link url (str_nat (annotation c)))"

section \<open>The order_created handler\<close>

text \<open>
  \<^verbatim>\<open>
  @receiver(order_created)
  def on_order_created(self, **kwargs):
      print(kwargs['order'])
  \<close>
  The function has one positional-or-keyword parameter, named \<^verbatim>\<open>self\<close>, and collects
  every other keyword argument in \<^verbatim>\<open>kwargs\<close>. Python binds a call's arguments before the
  body runs: a positional argument fills \<^verbatim>\<open>self\<close>; with no positional argument the keyword
  \<^verbatim>\<open>self\<close> fills it, and the call raises \<^verbatim>\<open>TypeError\<close> when there is none; a value for
  \<^verbatim>\<open>self\<close> given both ways, or a second positional argument, raises \<^verbatim>\<open>TypeError\<close> too.
  A call is its positional arguments and its keyword arguments in order.
\<close>

definition bind_self_kwargs ::
  "'v list \<Rightarrow> (string \<times> 'v) list \<Rightarrow> py_error + ('v \<times> (string \<times> 'v) list)" where
  "bind_self_kwargs args kw =
     (case args of
        [] \<Rightarrow> (case map_of kw ''self'' of
                 None \<Rightarrow> Inl (TypeError (Missing_positional ''self''))
               | Some v \<Rightarrow> Inr (v, filter (\<lambda>(k, _). k \<noteq> ''self'') kw))
      | [a] \<Rightarrow> (case map_of kw ''self'' of
                  None \<Rightarrow> Inr (a, kw)
                | Some _ \<Rightarrow> Inl (TypeError (Multiple_values ''self'')))
      | a # b # more_args \<Rightarrow> Inl (TypeError (Too_many_positional (length args))))"

text \<open>
  The body looks \<^verbatim>\<open>'order'\<close> up in \<^verbatim>\<open>kwargs\<close> with no guard and prints it: standard output
  is the list of lines printed so far, and \<open>str\<close> is \<^verbatim>\<open>str()\<close> on the objects passed.
\<close>

definition on_order_created ::
  "('v \<Rightarrow> string) \<Rightarrow> 'v list \<Rightarrow> (string \<times> 'v) list \<Rightarrow> string list \<Rightarrow> py_error + string list" where
  "on_order_created str args kw stdout =
     (case bind_self_kwargs args kw of
        Inl e \<Rightarrow> Inl e
      | Inr (self, kwargs) \<Rightarrow>
          (case map_of kwargs ''order'' of
             None \<Rightarrow> Inl (KeyError ''order'')
           | Some ord \<Rightarrow> Inr (stdout @ [str ord])))"

text \<open>
  \<^verbatim>\<open>@receiver(order_created)\<close> connects the function to the signal. When the signal fires,
  \<^verbatim>\<open>Signal.send(sender, **named)\<close> calls each connected receiver as
  \<^verbatim>\<open>receiver(signal=self, sender=sender, **named)\<close>: keyword arguments only, the signal
  under \<^verbatim>\<open>signal\<close> and the sender under \<^verbatim>\<open>sender\<close>.
\<close>

definition Signal_send ::
  "('v list \<Rightarrow> (string \<times> 'v) list \<Rightarrow> 's \<Rightarrow> py_error + 's) \<Rightarrow> 'v \<Rightarrow> 'v \<Rightarrow> (string \<times> 'v) list
     \<Rightarrow> 's \<Rightarrow> py_error + 's" where
  "Signal_send receiver signal sender named st =
     receiver [] ((''signal'', signal) # (''sender'', sender) # named) st"

section \<open>OrderItemInline\<close>

text \<open>
  \<^verbatim>\<open>
  class OrderItemInline(admin.StackedInline):
      autocomplete_fields = ['product']
      model = OrderItem
      min_num = 1
      max_num = 10
      extra = 0
  \<close>
  The class sets the three numbers and neither \<^verbatim>\<open>validate_min\<close> nor \<^verbatim>\<open>validate_max\<close>;
  the admin passes \<^verbatim>\<open>min_num\<close>, \<^verbatim>\<open>max_num\<close> and \<^verbatim>\<open>extra\<close> to the formset factory, whose
  default for both validation flags is \<^verbatim>\<open>False\<close>.
\<close>

record inline_options =
  min_num :: nat
  max_num :: nat
  extra :: nat
  validate_min :: bool
  validate_max :: bool

definition OrderItemInline :: inline_options where
  "OrderItemInline =
     \<lparr>min_num = 1, max_num = 10, extra = 0, validate_min = False, validate_max = False\<rparr>"

text \<open>
  The number of forms the editor shows for an order that has \<open>initial_forms\<close> items, as the
  formset computes it when the page is rendered:
  \<^verbatim>\<open>
  total_forms = max(initial_forms, self.min_num) + self.extra
  if initial_forms > self.max_num >= 0:
      total_forms = initial_forms
  elif total_forms > self.max_num >= 0:
      total_forms = self.max_num
  \<close>
\<close>

definition total_form_count :: "inline_options \<Rightarrow> nat \<Rightarrow> nat" where
  "total_form_count opts initial_forms =
     (let total_forms = max initial_forms (min_num opts) + extra opts
      in if initial_forms > max_num opts then initial_forms
         else if total_forms > max_num opts then max_num opts
         else total_forms)"

text \<open>
  A submitted formset is its forms in order: the forms of the existing items, each kept or
  marked for deletion, then the added forms, each filled in or left blank. A blank added
  form is accepted only from position \<^verbatim>\<open>min_num\<close> on (\<^verbatim>\<open>empty_permitted\<close>); a form marked
  for deletion is not validated. The formset as a whole checks the number of forms against
  \<^verbatim>\<open>max_num\<close> and \<^verbatim>\<open>min_num\<close> only under \<^verbatim>\<open>validate_max\<close> and \<^verbatim>\<open>validate_min\<close>, and
  against \<^verbatim>\<open>absolute_max\<close> (\<^verbatim>\<open>max_num + 1000\<close>) always.
\<close>

datatype inline_form = Existing_kept | Existing_deleted | New_filled | New_blank

definition absolute_max :: "inline_options \<Rightarrow> nat" where
  "absolute_max opts = max_num opts + 1000"

definition form_has_errors :: "inline_options \<Rightarrow> nat \<Rightarrow> inline_form \<Rightarrow> bool" where
  "form_has_errors opts i f \<longleftrightarrow> f = New_blank \<and> i < min_num opts"

definition formset_is_valid :: "inline_options \<Rightarrow> inline_form list \<Rightarrow> bool" where
  "formset_is_valid opts forms =
     (let total = length forms;
          deleted = length (filter (\<lambda>f. f = Existing_deleted) forms);
          empty_forms = length (filter (\<lambda>f. f = New_blank) forms)
      in \<not> list_ex (\<lambda>(i, f). form_has_errors opts i f) (enumerate 0 forms)
         \<and> \<not> ((validate_max opts \<and> total - deleted > max_num opts) \<or> total > absolute_max opts)
         \<and> \<not> (validate_min opts \<and> total - deleted - empty_forms < min_num opts))"

text \<open>
  Saving a valid formset leaves the order with the kept items and the filled-in added forms;
  an invalid one saves nothing and the page is shown again (\<open>None\<close>).
\<close>

definition save_formset :: "inline_options \<Rightarrow> inline_form list \<Rightarrow> nat option" where
  "save_formset opts forms =
     (if formset_is_valid opts forms
      then Some (length (filter (\<lambda>f. f = Existing_kept \<or> f = New_filled) forms))
      else None)"

section \<open>Properties\<close>

subsection \<open>Decimal strings need no quoting\<close>

lemma digit_char_in: "d < 10 \<Longrightarrow> digit_char d \<in> set ''0123456789''"
proof -
  assume "d < 10"
  then have "d \<in> {0,1,2,3,4,5,6,7,8,9}" by auto
  then show ?thesis by (auto simp: digit_char_def)
qed

lemma str_nat_digits: "set (str_nat n) \<subseteq> set ''0123456789''"
proof (induction n rule: str_nat.induct)
  case (1 n)
  show ?case
  proof (cases "n < 10")
    case True
    then show ?thesis using digit_char_in [of n] by (subst str_nat.simps) simp
  next
    case False
    have "n mod 10 < 10" by simp
    then have "digit_char (n mod 10) \<in> set ''0123456789''" by (rule digit_char_in)
    with False "1" show ?thesis by (subst str_nat.simps) simp
  qed
qed

lemma str_nat_chars: "set (str_nat n) \<subseteq> set ''-0123456789''"
proof -
  have "set ''0123456789'' \<subseteq> set ''-0123456789''" by simp
  with str_nat_digits [of n] show ?thesis by (rule subset_trans)
qed

lemma str_int_chars: "set (str_int i) \<subseteq> set ''-0123456789''"
proof (cases "i < 0")
  case True
  then have "str_int i = CHR ''-'' # str_nat (nat (- i))" by (simp add: str_int_def)
  moreover have "CHR ''-'' \<in> set ''-0123456789''" by simp
  ultimately show ?thesis using str_nat_chars [of "nat (- i)"] by simp
next
  case False
  then have "str_int i = str_nat (nat i)" by (simp add: str_int_def)
  then show ?thesis using str_nat_chars [of "nat i"] by simp
qed

subsection \<open>The join behind an annotated count\<close>

lemma join_rows_fst: "x \<in> set (join_rows pk fk rs l) \<Longrightarrow> fst x = l"
  by (auto simp: join_rows_def split: list.splits)

lemma join_rows_nonempty: "join_rows pk fk rs l \<noteq> []"
  by (simp add: join_rows_def split: list.splits)

lemma join_rows_count:
  "length (filter (\<lambda>(l', r). l' = l \<and> r \<noteq> None) (join_rows pk fk rs l))
     = length (filter (\<lambda>r. fk r = pk l) rs)"
proof (cases "filter (\<lambda>r. fk r = pk l) rs")
  case Nil
  then show ?thesis by (simp add: join_rows_def)
next
  case (Cons m ms)
  have "filter (\<lambda>(l', r). l' = l \<and> r \<noteq> None) (map (\<lambda>r. (l, Some r)) (m # ms))
          = map (\<lambda>r. (l, Some r)) (m # ms)"
    by (rule filter_True) auto
  with Cons show ?thesis by (simp add: join_rows_def)
qed

lemma join_rows_count_other:
  "l' \<noteq> l \<Longrightarrow> filter (\<lambda>(k, r). k = l \<and> r \<noteq> None) (join_rows pk fk rs l') = []"
  by (auto simp: filter_empty_conv dest: join_rows_fst)

lemma remdups_constant_prefix:
  "xs \<noteq> [] \<Longrightarrow> \<forall>x\<in>set xs. x = l \<Longrightarrow> l \<notin> set ys \<Longrightarrow> remdups (xs @ ys) = l # remdups ys"
proof (induction xs)
  case Nil
  then show ?case by simp
next
  case (Cons x xs)
  then show ?case by (cases xs) auto
qed

lemma join_groups:
  "distinct ls \<Longrightarrow> remdups (map fst (left_outer_join pk fk ls rs)) = ls"
proof (induction ls)
  case Nil
  then show ?case by (simp add: left_outer_join_def)
next
  case (Cons l ls)
  let ?b = "map fst (join_rows pk fk rs l)"
  let ?rest = "map fst (left_outer_join pk fk ls rs)"
  have ne: "?b \<noteq> []" by (simp add: join_rows_nonempty)
  have all: "\<forall>x\<in>set ?b. x = l" by (auto dest: join_rows_fst)
  have "set ?rest \<subseteq> set ls"
    by (auto simp: left_outer_join_def dest: join_rows_fst)
  with Cons.prems have notin: "l \<notin> set ?rest" by auto
  have "remdups (?b @ ?rest) = l # remdups ?rest"
    by (rule remdups_constant_prefix [OF ne all notin])
  with Cons show ?case by (simp add: left_outer_join_def)
qed

lemma join_count:
  "distinct ls \<Longrightarrow> l \<in> set ls \<Longrightarrow>
     length (filter (\<lambda>(k, r). k = l \<and> r \<noteq> None) (left_outer_join pk fk ls rs))
       = length (filter (\<lambda>r. fk r = pk l) rs)"
proof (induction ls)
  case Nil
  then show ?case by simp
next
  case (Cons a ls)
  show ?case
  proof (cases "a = l")
    case True
    with Cons.prems have "l \<notin> set ls" by simp
    then have "filter (\<lambda>(k, r). k = l \<and> r \<noteq> None) (left_outer_join pk fk ls rs) = []"
      by (auto simp: left_outer_join_def filter_empty_conv dest: join_rows_fst)
    with True show ?thesis
      by (simp add: left_outer_join_def join_rows_count del: not_None_eq)
  next
    case False
    with Cons have "length (filter (\<lambda>(k, r). k = l \<and> r \<noteq> None) (left_outer_join pk fk ls rs))
       = length (filter (\<lambda>r. fk r = pk l) rs)" by simp
    with False show ?thesis
      by (simp add: left_outer_join_def join_rows_count_other del: not_None_eq)
  qed
qed

lemma annotate_Count_true_count:
  "distinct ls \<Longrightarrow>
     annotate_Count pk fk ls rs
       = map (\<lambda>l. \<lparr>instance_of = l, annotation = length (filter (\<lambda>r. fk r = pk l) rs)\<rparr>) ls"
  by (simp add: annotate_Count_def group_by_count_def join_groups join_count del: not_None_eq)

subsection \<open>Escaping and quoting leave a decimal number as it is\<close>

lemma escape_append: "escape (xs @ ys) = escape xs @ escape ys"
  by (simp add: escape_def)

lemma escape_plain: "\<forall>c\<in>set s. escape_char c = [c] \<Longrightarrow> escape s = s"
  by (induction s) (simp_all add: escape_def)

lemma quote_plus_plain: "\<forall>c\<in>set s. quote_plus_char c = [c] \<Longrightarrow> quote_plus s = s"
  by (induction s) (simp_all add: quote_plus_def)

lemma escape_char_number: "c \<in> set ''-0123456789'' \<Longrightarrow> escape_char c = [c]"
  by (auto simp: escape_char_def)

lemma quote_plus_char_number: "c \<in> set ''-0123456789'' \<Longrightarrow> quote_plus_char c = [c]"
  by (auto simp: quote_plus_char_def always_safe_def)

lemma escape_str_int: "escape (str_int i) = str_int i"
proof (rule escape_plain, rule ballI)
  fix c assume "c \<in> set (str_int i)"
  with str_int_chars [of i] have "c \<in> set ''-0123456789''" by blast
  then show "escape_char c = [c]" by (rule escape_char_number)
qed

lemma escape_str_nat: "escape (str_nat n) = str_nat n"
proof (rule escape_plain, rule ballI)
  fix c assume "c \<in> set (str_nat n)"
  with str_nat_chars [of n] have "c \<in> set ''-0123456789''" by blast
  then show "escape_char c = [c]" by (rule escape_char_number)
qed

lemma quote_plus_str_int: "quote_plus (str_int i) = str_int i"
proof (rule quote_plus_plain, rule ballI)
  fix c assume "c \<in> set (str_int i)"
  with str_int_chars [of i] have "c \<in> set ''-0123456789''" by blast
  then show "quote_plus_char c = [c]" by (rule quote_plus_char_number)
qed

lemma quote_plus_collection_id: "quote_plus ''collection_id'' = ''collection_id''"
  by (simp add: quote_plus_def quote_plus_char_def always_safe_def)

lemma quote_plus_customer_id: "quote_plus ''customer_id'' = ''customer_id''"
  by (simp add: quote_plus_def quote_plus_char_def always_safe_def)

lemma escape_query_collection: "escape ''?collection_id='' = ''?collection_id=''"
  by (simp add: escape_def escape_char_def)

lemma escape_query_customer: "escape ''?customer_id='' = ''?customer_id=''"
  by (simp add: escape_def escape_char_def)

lemma products_count_url:
  "escape (changelist @ ''?'' @ urlencode [(''collection_id'', str_int i)])
     = escape changelist @ ''?collection_id='' @ str_int i"
proof -
  have "urlencode [(''collection_id'', str_int i)] = ''collection_id='' @ str_int i"
    by (simp only: urlencode.simps quote_plus_collection_id quote_plus_str_int append.simps)
  then have "changelist @ ''?'' @ urlencode [(''collection_id'', str_int i)]
      = changelist @ ''?collection_id='' @ str_int i" by simp
  then show ?thesis
    by (simp only: escape_append escape_query_collection escape_str_int)
qed

lemma orders_count_url:
  "escape (changelist @ ''?'' @ urlencode [(''customer_id'', str_int i)])
     = escape changelist @ ''?customer_id='' @ str_int i"
proof -
  have "urlencode [(''customer_id'', str_int i)] = ''customer_id='' @ str_int i"
    by (simp only: urlencode.simps quote_plus_customer_id quote_plus_str_int append.simps)
  then have "changelist @ ''?'' @ urlencode [(''customer_id'', str_int i)]
      = changelist @ ''?customer_id='' @ str_int i" by simp
  then show ?thesis
    by (simp only: escape_append escape_query_customer escape_str_int)
qed

subsection \<open>The handler behind the dispatcher\<close>

lemma dispatch_never_binds_self:
  "map_of named ''self'' = None \<Longrightarrow>
     Signal_send (on_order_created str) signal sender named out
       = Inl (TypeError (Missing_positional ''self''))"
  by (simp add: Signal_send_def on_order_created_def bind_self_kwargs_def)

lemma handler_body_prints:
  "map_of kw ''self'' = None \<Longrightarrow> map_of kw ''order'' = Some v \<Longrightarrow>
     on_order_created str [s] kw out = Inr (out @ [str v])"
  by (simp add: on_order_created_def bind_self_kwargs_def)

lemma handler_body_key_error:
  "map_of kw ''self'' = None \<Longrightarrow> map_of kw ''order'' = None \<Longrightarrow>
     on_order_created str [s] kw out = Inl (KeyError ''order'')"
  by (simp add: on_order_created_def bind_self_kwargs_def)

subsection \<open>The forms of the inline editor\<close>

lemma kept_or_filled_le: "length (filter (\<lambda>f. f = Existing_kept \<or> f = New_filled) forms) \<le> length forms"
  by (rule length_filter_le)

lemma first_form_counts:
  assumes "formset_is_valid OrderItemInline forms" and "forms \<noteq> []"
    and "Existing_deleted \<notin> set forms"
  shows "1 \<le> length (filter (\<lambda>f. f = Existing_kept \<or> f = New_filled) forms)"
proof (cases forms)
  case Nil
  with assms(2) show ?thesis by simp
next
  case (Cons f fs)
  from assms(1) Cons have "\<not> form_has_errors OrderItemInline 0 f"
    by (simp add: formset_is_valid_def Let_def enumerate_Suc_eq)
  then have "f \<noteq> New_blank"
    by (simp add: form_has_errors_def OrderItemInline_def)
  moreover from assms(3) Cons have "f \<noteq> Existing_deleted" by auto
  ultimately have "f = Existing_kept \<or> f = New_filled" by (cases f) auto
  with Cons show ?thesis by auto
qed

subsection \<open>The claims\<close>

text \<open>
  C1. When the UPDATE executes, \<open>clear_inventory\<close> returns, the product table keeps its
  rows in place, every row the queryset selects has inventory 0 and is otherwise the row it
  was, and every row the queryset does not select is the row it was.
\<close>

theorem clear_inventory_effect:
  "connection_usable db \<Longrightarrow>
     \<exists>db' msgs. clear_inventory db request qs = Inr (db', msgs) \<and>
       length (products db') = length (products db) \<and>
       (\<forall>i < length (products db).
          (qs (products db ! i) \<longrightarrow>
             inventory (products db' ! i) = 0 \<and>
             products db' ! i = (products db ! i)\<lparr>inventory := 0\<rparr>) \<and>
          (\<not> qs (products db ! i) \<longrightarrow> products db' ! i = products db ! i))"
  by (simp add: clear_inventory_def QuerySet_update_def)

theorem clear_inventory_effect_witness:
  "\<exists>db' msgs.
     clear_inventory
       \<lparr>products = [\<lparr>product_id = 1, title = ''pen'', inventory = 5, collection_id = 1\<rparr>,
                    \<lparr>product_id = 2, title = ''ink'', inventory = 7, collection_id = 1\<rparr>],
        connection_usable = True\<rparr> [] (\<lambda>p. product_id p = 1) = Inr (db', msgs) \<and>
     products db' = [\<lparr>product_id = 1, title = ''pen'', inventory = 0, collection_id = 1\<rparr>,
                     \<lparr>product_id = 2, title = ''ink'', inventory = 7, collection_id = 1\<rparr>]"
proof -
  let ?db = "\<lparr>products = [\<lparr>product_id = 1, title = ''pen'', inventory = 5, collection_id = 1\<rparr>,
                    \<lparr>product_id = 2, title = ''ink'', inventory = 7, collection_id = 1\<rparr>],
        connection_usable = True\<rparr>"
  have u: "connection_usable ?db" by simp
  from clear_inventory_effect [OF u, of "[]" "\<lambda>p. product_id p = 1"]
  obtain db' msgs where r: "clear_inventory ?db [] (\<lambda>p. product_id p = 1) = Inr (db', msgs)"
    and len: "length (products db') = length (products ?db)"
    and rows: "\<forall>i < length (products ?db).
          ((\<lambda>p. product_id p = 1) (products ?db ! i) \<longrightarrow>
             inventory (products db' ! i) = 0 \<and>
             products db' ! i = (products ?db ! i)\<lparr>inventory := 0\<rparr>) \<and>
          (\<not> (\<lambda>p. product_id p = 1) (products ?db ! i) \<longrightarrow> products db' ! i = products ?db ! i)"
    by blast
  have r0: "products db' ! 0 = \<lparr>product_id = 1, title = ''pen'', inventory = 0, collection_id = 1\<rparr>"
    using rows [THEN spec, of 0] by simp
  have r1: "products db' ! 1 = \<lparr>product_id = 2, title = ''ink'', inventory = 7, collection_id = 1\<rparr>"
    using rows [THEN spec, of 1] by simp
  from len have "length (products db') = 2" by simp
  then have "products db' = [products db' ! 0, products db' ! 1]"
    by (cases "products db'"; cases "tl (products db')") auto
  with r r0 r1 show ?thesis by (intro exI [of _ db'] exI [of _ msgs]) simp
qed

text \<open>
  C2. \<open>inventory_status\<close> is \<^verbatim>\<open>'Low'\<close> for an inventory strictly below 10 and \<^verbatim>\<open>'OK'\<close> for
  every other inventory.
\<close>

theorem inventory_status_threshold:
  "(inventory p < 10 \<longrightarrow> inventory_status p = ''Low'') \<and>
   (\<not> inventory p < 10 \<longrightarrow> inventory_status p = ''OK'')"
  by (simp add: inventory_status_def)

theorem inventory_status_threshold_witness:
  "inventory_status \<lparr>product_id = 1, title = ''pen'', inventory = 9, collection_id = 1\<rparr> = ''Low'' \<and>
   inventory_status \<lparr>product_id = 2, title = ''ink'', inventory = 10, collection_id = 1\<rparr> = ''OK''"
  using inventory_status_threshold [of "\<lparr>product_id = 1, title = ''pen'', inventory = 9, collection_id = 1\<rparr>"]
        inventory_status_threshold [of "\<lparr>product_id = 2, title = ''ink'', inventory = 10, collection_id = 1\<rparr>"]
  by simp

text \<open>
  C3. With the value \<^verbatim>\<open>'<10'\<close> the inventory filter returns a queryset, and that queryset
  selects a row exactly when the incoming queryset selects it and \<open>inventory_status\<close>
  calls it \<^verbatim>\<open>'Low'\<close>; read against any table it yields the rows of the incoming queryset
  whose status is \<^verbatim>\<open>'Low'\<close>.
\<close>

theorem filter_agrees_with_status:
  "\<exists>qs'. InventoryFilter_queryset (Some ''<10'') qs = Some qs' \<and>
     (\<forall>p. qs' p \<longleftrightarrow> (qs p \<and> inventory_status p = ''Low'')) \<and>
     (\<forall>tbl. QuerySet_rows tbl qs' = filter (\<lambda>p. inventory_status p = ''Low'') (QuerySet_rows tbl qs))"
  by (auto simp: InventoryFilter_queryset_def QuerySet_filter_def QuerySet_rows_def inventory_status_def
        intro!: filter_cong)

text \<open>
  C4. Over tables whose primary keys are unique, the annotated querysets list the rows of
  \<^verbatim>\<open>super().get_queryset\<close> in order, each with the number of products that refer to the
  collection, respectively of orders that refer to the customer.
\<close>

theorem annotated_counts_true:
  "distinct (map collection_pk collections) \<Longrightarrow> distinct (map customer_pk customers) \<Longrightarrow>
     CollectionAdmin_get_queryset collections prods
       = map (\<lambda>c. \<lparr>instance_of = c,
                    annotation = length (filter (\<lambda>p. collection_id p = collection_pk c) prods)\<rparr>)
             collections \<and>
     CustomerAdmin_get_queryset customers orders
       = map (\<lambda>c. \<lparr>instance_of = c,
                    annotation = length (filter (\<lambda>ord. customer_id ord = customer_pk c) orders)\<rparr>)
             customers"
proof -
  assume "distinct (map collection_pk collections)" and "distinct (map customer_pk customers)"
  then have "distinct collections" and "distinct customers"
    by (simp_all add: distinct_map)
  then show ?thesis
    by (simp add: CollectionAdmin_get_queryset_def CustomerAdmin_get_queryset_def
        annotate_Count_true_count)
qed

theorem annotated_counts_true_witness:
  "CollectionAdmin_get_queryset
     [\<lparr>collection_pk = 1, collection_title = ''Pets''\<rparr>,
      \<lparr>collection_pk = 2, collection_title = ''Toys''\<rparr>,
      \<lparr>collection_pk = 3, collection_title = ''Food''\<rparr>]
     [\<lparr>product_id = 10, title = ''bone'', inventory = 4, collection_id = 3\<rparr>,
      \<lparr>product_id = 11, title = ''ball'', inventory = 40, collection_id = 2\<rparr>,
      \<lparr>product_id = 12, title = ''bowl'', inventory = 9, collection_id = 3\<rparr>,
      \<lparr>product_id = 13, title = ''bran'', inventory = 0, collection_id = 3\<rparr>]
   = [\<lparr>instance_of = \<lparr>collection_pk = 1, collection_title = ''Pets''\<rparr>, annotation = 0\<rparr>,
      \<lparr>instance_of = \<lparr>collection_pk = 2, collection_title = ''Toys''\<rparr>, annotation = 1\<rparr>,
      \<lparr>instance_of = \<lparr>collection_pk = 3, collection_title = ''Food''\<rparr>, annotation = 3\<rparr>] \<and>
   CustomerAdmin_get_queryset
     [\<lparr>customer_pk = 5, membership = ''G''\<rparr>, \<lparr>customer_pk = 6, membership = ''B''\<rparr>]
     [\<lparr>order_pk = 1, customer_id = 6\<rparr>, \<lparr>order_pk = 2, customer_id = 6\<rparr>]
   = [\<lparr>instance_of = \<lparr>customer_pk = 5, membership = ''G''\<rparr>, annotation = 0\<rparr>,
      \<lparr>instance_of = \<lparr>customer_pk = 6, membership = ''B''\<rparr>, annotation = 2\<rparr>]"
  using annotated_counts_true [of
     "[\<lparr>collection_pk = 1, collection_title = ''Pets''\<rparr>,
       \<lparr>collection_pk = 2, collection_title = ''Toys''\<rparr>,
       \<lparr>collection_pk = 3, collection_title = ''Food''\<rparr>]"
     "[\<lparr>customer_pk = 5, membership = ''G''\<rparr>, \<lparr>customer_pk = 6, membership = ''B''\<rparr>]"
     "[\<lparr>product_id = 10, title = ''bone'', inventory = 4, collection_id = 3\<rparr>,
       \<lparr>product_id = 11, title = ''ball'', inventory = 40, collection_id = 2\<rparr>,
       \<lparr>product_id = 12, title = ''bowl'', inventory = 9, collection_id = 3\<rparr>,
       \<lparr>product_id = 13, title = ''bran'', inventory = 0, collection_id = 3\<rparr>]"
     "[\<lparr>order_pk = 1, customer_id = 6\<rparr>, \<lparr>order_pk = 2, customer_id = 6\<rparr>]"]
  by simp

text \<open>
  C5, as amended. When the UPDATE executes, whatever number of rows it matches,
  \<open>clear_inventory\<close> queues exactly one message after those already queued, at the level
  \<^verbatim>\<open>messages.ERROR\<close>, whose text gives the number of rows the queryset matched. When the
  UPDATE raises, the exception leaves \<open>clear_inventory\<close> and no message is queued.
\<close>

theorem clear_inventory_message:
  "(connection_usable db \<longrightarrow>
      (\<exists>db'. clear_inventory db request qs =
         Inr (db', request @ [\<lparr>level = messages_ERROR,
                message = str_nat (length (QuerySet_rows (products db) qs))
                            @ '' products were successfully updated.''\<rparr>]))) \<and>
   (\<not> connection_usable db \<longrightarrow> clear_inventory db request qs = Inl DatabaseError)"
  by (simp add: clear_inventory_def QuerySet_update_def message_user_def QuerySet_rows_def)

theorem clear_inventory_message_witness:
  "(\<exists>db'. clear_inventory
       \<lparr>products = [\<lparr>product_id = 1, title = ''pen'', inventory = 5, collection_id = 1\<rparr>],
        connection_usable = True\<rparr> [] (\<lambda>p. False) =
      Inr (db', [\<lparr>level = 40, message = ''0 products were successfully updated.''\<rparr>])) \<and>
   clear_inventory
       \<lparr>products = [\<lparr>product_id = 1, title = ''pen'', inventory = 5, collection_id = 1\<rparr>],
        connection_usable = False\<rparr> [] (\<lambda>p. False) = Inl DatabaseError"
  using clear_inventory_message [of
       "\<lparr>products = [\<lparr>product_id = 1, title = ''pen'', inventory = 5, collection_id = 1\<rparr>],
        connection_usable = True\<rparr>" "[]" "\<lambda>p. False"]
     clear_inventory_message [of
       "\<lparr>products = [\<lparr>product_id = 1, title = ''pen'', inventory = 5, collection_id = 1\<rparr>],
        connection_usable = False\<rparr>" "[]" "\<lambda>p. False"]
  by (simp add: messages_ERROR_def QuerySet_rows_def digit_char_def)

text \<open>
  C5 as stated fails where the UPDATE does not succeed: on a backend that raises, the
  action returns the exception and queues nothing.
\<close>

theorem clear_inventory_message_counterexample:
  "clear_inventory
     \<lparr>products = [\<lparr>product_id = 1, title = ''pen'', inventory = 5, collection_id = 1\<rparr>],
      connection_usable = False\<rparr> [] QuerySet_all = Inl DatabaseError"
  by (simp add: clear_inventory_def QuerySet_update_def)

text \<open>
  C6. The claim says the handler prints the order whenever the signal fires. Fired with an
  order, the dispatcher's keyword-only call leaves the parameter \<^verbatim>\<open>self\<close> unbound: the call
  raises \<^verbatim>\<open>TypeError\<close> before the body runs and nothing is printed.
\<close>

theorem order_created_fires_nothing_printed:
  "Signal_send (on_order_created (\<lambda>v. v)) ''order_created'' ''Order''
       [(''order'', ''Order object (1)'')] []
     = Inl (TypeError (Missing_positional ''self''))"
  by (simp add: Signal_send_def on_order_created_def bind_self_kwargs_def)

text \<open>
  C7, as amended. For an order with \<open>n\<close> items the inline editor shows \<open>max n 1\<close> forms: at
  least 1, at most 10 when the order has at most 10 items, and no blank form beyond those.
  A valid submission that shows at least one form and deletes no item leaves the order with
  at least 1 item, and with no more items than forms submitted, which are at most 1010.
\<close>

theorem order_item_inline_forms:
  "total_form_count OrderItemInline n = max n 1 \<and>
   1 \<le> total_form_count OrderItemInline n \<and>
   (n \<le> 10 \<longrightarrow> total_form_count OrderItemInline n \<le> 10) \<and>
   (formset_is_valid OrderItemInline forms \<longrightarrow> forms \<noteq> [] \<longrightarrow> Existing_deleted \<notin> set forms \<longrightarrow>
      (\<exists>k. save_formset OrderItemInline forms = Some k \<and> 1 \<le> k \<and> k \<le> length forms
            \<and> length forms \<le> 1010))"
proof -
  have shown: "total_form_count OrderItemInline n = max n 1"
    by (simp add: total_form_count_def OrderItemInline_def Let_def max_def)
  have saved: "\<exists>k. save_formset OrderItemInline forms = Some k \<and> 1 \<le> k \<and> k \<le> length forms
            \<and> length forms \<le> 1010"
    if v: "formset_is_valid OrderItemInline forms" and ne: "forms \<noteq> []"
      and nd: "Existing_deleted \<notin> set forms"
  proof -
    from v have "length forms \<le> 1010"
      by (simp add: formset_is_valid_def Let_def absolute_max_def OrderItemInline_def)
    with v first_form_counts [OF v ne nd] kept_or_filled_le [of forms] show ?thesis
      by (simp add: save_formset_def)
  qed
  from shown saved show ?thesis by (simp add: max_def)
qed

theorem order_item_inline_forms_witness:
  "total_form_count OrderItemInline 0 = 1 \<and> total_form_count OrderItemInline 4 = 4 \<and>
   total_form_count OrderItemInline 10 = 10 \<and>
   save_formset OrderItemInline [Existing_kept, New_filled, New_blank] = Some 2"
proof -
  have v: "formset_is_valid OrderItemInline [Existing_kept, New_filled, New_blank]"
    by (simp add: formset_is_valid_def Let_def form_has_errors_def OrderItemInline_def
        absolute_max_def enumerate_Suc_eq)
  have s: "save_formset OrderItemInline [Existing_kept, New_filled, New_blank] = Some 2"
    using v by (simp add: save_formset_def)
  show ?thesis
    using order_item_inline_forms [of 0 "[Existing_kept, New_filled, New_blank]"]
      order_item_inline_forms [of 4 "[Existing_kept, New_filled, New_blank]"]
      order_item_inline_forms [of 10 "[Existing_kept, New_filled, New_blank]"] s
    by simp
qed

text \<open>
  C7 as stated fails at both ends: an order that already has 11 items is shown 11 forms and
  keeps 11 items when saved, and an order whose only item is marked for deletion is saved
  with none.
\<close>

theorem order_item_inline_counterexample:
  "total_form_count OrderItemInline 11 = 11 \<and>
   save_formset OrderItemInline (replicate 11 Existing_kept) = Some 11 \<and>
   save_formset OrderItemInline [Existing_deleted] = Some 0"
  by (simp add: total_form_count_def save_formset_def formset_is_valid_def Let_def
      form_has_errors_def OrderItemInline_def absolute_max_def enumerate_Suc_eq
      numeral_eq_Suc)

text \<open>
  C8. The products count column is the anchor whose \<^verbatim>\<open>href\<close> is the product change list's
  URL (escaped for HTML) followed by \<^verbatim>\<open>?collection_id=\<close> and the collection's id in
  decimal, and whose text is the annotated count; the orders count column is the same
  over the order change list with \<^verbatim>\<open>?customer_id=\<close> and the customer's id.
\<close>

theorem count_columns_link:
  "CollectionAdmin_products_count product_changelist c
     = ''<a href='' @ [CHR 0x22] @ escape product_changelist @ ''?collection_id=''
         @ str_int (collection_pk (instance_of c)) @ [CHR 0x22] @ ''>''
         @ str_nat (annotation c) @ ''</a>''
   \<and> CustomerAdmin_orders_count order_changelist d
     = ''<a href='' @ [CHR 0x22] @ escape order_changelist @ ''?customer_id=''
         @ str_int (customer_pk (instance_of d)) @ [CHR 0x22] @ ''>''
         @ str_nat (annotation d) @ ''</a>''"
  unfolding CollectionAdmin_products_count_def CustomerAdmin_orders_count_def Let_def
    format_html_link_def products_count_url orders_count_url escape_str_nat
  by simp

theorem count_columns_link_witness:
  "CollectionAdmin_products_count ''/admin/store/product/''
     \<lparr>instance_of = \<lparr>collection_pk = 7, collection_title = ''Pets''\<rparr>, annotation = 12\<rparr>
     = ''<a href='' @ [CHR 0x22] @ ''/admin/store/product/?collection_id=7'' @ [CHR 0x22]
         @ ''>12</a>''
   \<and> CustomerAdmin_orders_count ''/admin/store/order/''
     \<lparr>instance_of = \<lparr>customer_pk = 30, membership = ''G''\<rparr>, annotation = 0\<rparr>
     = ''<a href='' @ [CHR 0x22] @ ''/admin/store/order/?customer_id=30'' @ [CHR 0x22]
         @ ''>0</a>''"
  using count_columns_link [of "''/admin/store/product/''"
      "\<lparr>instance_of = \<lparr>collection_pk = 7, collection_title = ''Pets''\<rparr>, annotation = 12\<rparr>"
      "''/admin/store/order/''"
      "\<lparr>instance_of = \<lparr>customer_pk = 30, membership = ''G''\<rparr>, annotation = 0\<rparr>"]
  by (simp add: escape_def escape_char_def str_int_def digit_char_def)

text \<open>
  C9. For every value other than \<^verbatim>\<open>'<10'\<close>, the absent value \<^verbatim>\<open>None\<close> included, the
  inventory filter returns \<^verbatim>\<open>None\<close> and the change list keeps the queryset it had; for
  \<^verbatim>\<open>'<10'\<close> it returns the queryset restricted to inventories below 10.
\<close>

theorem filter_other_values_none:
  "(val \<noteq> Some ''<10'' \<longrightarrow>
      InventoryFilter_queryset val qs = None \<and>
      apply_filter_spec (InventoryFilter_queryset val) qs = qs) \<and>
   InventoryFilter_queryset (Some ''<10'') qs = Some (QuerySet_filter (\<lambda>p. inventory p < 10) qs)"
  by (simp add: InventoryFilter_queryset_def apply_filter_spec_def)

theorem filter_other_values_none_witness:
  "InventoryFilter_queryset None (QuerySet_all :: product queryset) = None \<and>
   InventoryFilter_queryset (Some ''<=10'') (QuerySet_all :: product queryset) = None \<and>
   apply_filter_spec (InventoryFilter_queryset (Some ''<=10'')) (QuerySet_all :: product queryset)
     = QuerySet_all"
  using filter_other_values_none [of None "QuerySet_all :: product queryset"]
        filter_other_values_none [of "Some ''<=10''" "QuerySet_all :: product queryset"]
  by simp

text \<open>
  C10. The claim says that firing the signal without an order raises \<^verbatim>\<open>KeyError\<close>. The
  dispatcher's call fails earlier: \<^verbatim>\<open>self\<close> is unbound and the call raises \<^verbatim>\<open>TypeError\<close>;
  the lookup of \<^verbatim>\<open>'order'\<close> is never reached.
\<close>

theorem order_created_without_order_type_error:
  "Signal_send (on_order_created (\<lambda>v. v)) ''order_created'' ''Order'' [] []
     = Inl (TypeError (Missing_positional ''self''))"
  by (simp add: Signal_send_def on_order_created_def bind_self_kwargs_def)

end
